theory Spec2Isabelle
  imports Main
begin

section \<open>Data model of \<open>src/cmd/cmd.go\<close>\<close>

text \<open>
  A Go \<open>error\<close> is represented by its message, a Go \<open>string\<close> by its bytes, and a channel
  of outcomes by its identity (a fresh number for every \<open>make(chan EmailSendOutcome)\<close>).
\<close>

type_synonym error = string
type_synonym chan = nat

record SenderConfig =
  Host :: string
  Port :: int
  Address :: string
  Name :: string
  Password :: string

record Header =
  From :: string
  Subject :: string
  MIME :: string
  Miscellaneous :: string

text \<open>The \<open>interface{}\<close> field of a recipient holds whatever YAML value the file gives.\<close>

datatype yaml = YNull | YString string | YInt int | YSeq "yaml list" | YMap "(string \<times> yaml) list"

record Recipient =
  R_Name :: string
  R_Title :: string
  R_Address :: string
  R_Miscellaneous :: yaml

record EmailSendRequest =
  IPAddress :: string
  FirstName :: string
  LastName :: string
  CompanyName :: string
  EmailAddress :: string
  Description :: string
  Result :: chan

record EmailSendOutcome =
  Error :: "error option"

text \<open>
  \<open>template\<close> is the compiled template, as its method \<open>Execute\<close> computes on a
  request: the rendered bytes, or the error of the execution.
\<close>

record MailConfig =
  Sender :: SenderConfig
  Recipients :: "string \<rightharpoonup> Recipient"
  Header :: Header
  TemplateText :: string
  template :: "EmailSendRequest \<Rightarrow> error + string"

record ServerConfig =
  Server_Address :: string
  BaseURL :: string
  EmailConfig :: MailConfig

section \<open>The mail transfer library, as the worker sees it\<close>

record Auth =
  auth_identity :: string
  auth_username :: string
  auth_password :: string
  auth_host :: string

definition PlainAuth :: "string \<Rightarrow> string \<Rightarrow> string \<Rightarrow> string \<Rightarrow> Auth" where
  "PlainAuth identity username password host =
     \<lparr>auth_identity = identity, auth_username = username,
      auth_password = password, auth_host = host\<rparr>"

record SendMail_args =
  sm_addr :: string
  sm_auth :: Auth
  sm_from :: string
  sm_to :: "string list"
  sm_msg :: string

text \<open>
  \<open>smtp.SendMail\<close> talks to the network: its result is a function of the state \<open>'w\<close> of
  the outside world, which it changes.
\<close>

type_synonym 'w smtp = "'w \<Rightarrow> SendMail_args \<Rightarrow> error option \<times> 'w"

text \<open>What the worker does, in the order it does it.\<close>

datatype event =
  SendMail SendMail_args "error option"
| Publish chan EmailSendOutcome

fun outcomes :: "chan \<Rightarrow> event list \<Rightarrow> EmailSendOutcome list" where
  "outcomes ch [] = []"
| "outcomes ch (SendMail a e # evs) = outcomes ch evs"
| "outcomes ch (Publish c x # evs) = (if c = ch then x # outcomes ch evs else outcomes ch evs)"

fun calls :: "event list \<Rightarrow> (SendMail_args \<times> error option) list" where
  "calls [] = []"
| "calls (SendMail a e # evs) = (a, e) # calls evs"
| "calls (Publish c x # evs) = calls evs"

section \<open>Formatting\<close>

definition newline :: char where
  "newline = CHR 0x0A"

text \<open>\<open>%d\<close> of \<open>fmt.Sprintf\<close>: decimal digits, with a minus sign below zero.\<close>

definition digit :: "nat \<Rightarrow> char" where
  "digit d = char_of (48 + d)"

function show_nat :: "nat \<Rightarrow> string" where
  "show_nat n = (if n < 10 then [digit n] else show_nat (n div 10) @ [digit (n mod 10)])"
  by pat_completeness auto
termination
  by (relation "measure (\<lambda>n. n)") auto

definition show_int :: "int \<Rightarrow> string" where
  "show_int i = (if i < 0 then CHR ''-'' # show_nat (nat (- i)) else show_nat (nat i))"

definition ToString :: "Header \<Rightarrow> string \<Rightarrow> string" where
  "ToString h to =
     ''From: '' @ From h @ [newline] @ ''To: '' @ to @ [newline] @
     ''Subject: '' @ Subject h @ [newline] @ MIME h @ [newline] @
     Miscellaneous h @ [newline]"

section \<open>The dispatch worker\<close>

text \<open>
  \<open>for _, r := range m.Recipients\<close> ranges over a Go map: the language leaves the order of
  the keys to the runtime, which chooses it anew at every \<open>range\<close> statement. The order
  \<open>ks\<close> of one \<open>range\<close> is therefore an input of the model; it is an order of the map
  when it lists every key once.
\<close>

definition range_order :: "('k \<rightharpoonup> 'v) \<Rightarrow> 'k list \<Rightarrow> bool" where
  "range_order m ks \<longleftrightarrow> distinct ks \<and> set ks = dom m"

definition range_values :: "('k \<rightharpoonup> 'v) \<Rightarrow> 'k list \<Rightarrow> 'v list" where
  "range_values m ks = List.map_filter m ks"

text \<open>
  The reply channel \<open>cmd.Result\<close> is unbuffered: \<open>cmd.Result <- x\<close> returns when a receiver
  has taken \<open>x\<close>, and never returns when no receiver comes. \<open>n\<close> is the number of values
  that the holder of the receiving end takes from the channel. The third component of the
  result says whether the loop ran to its end (\<open>True\<close>) or stays in a send forever
  (\<open>False\<close>).

  The inner loop, lines 141 to 154.
\<close>

fun deliver ::
  "'w smtp \<Rightarrow> MailConfig \<Rightarrow> Auth \<Rightarrow> string \<Rightarrow> string \<Rightarrow> chan \<Rightarrow> Recipient list \<Rightarrow> nat \<Rightarrow> 'w
    \<Rightarrow> event list \<times> 'w \<times> bool" where
  "deliver send m auth address body ch [] n w = ([], w, True)"
| "deliver send m auth address body ch (r # rs) n w =
     (let args = \<lparr>sm_addr = address, sm_auth = auth, sm_from = Address (Sender m),
                  sm_to = [R_Address r],
                  sm_msg = ToString (Header m) (R_Address r) @ body\<rparr>;
          (err, w') = send w args
      in case n of
           0 \<Rightarrow> ([SendMail args err], w', False)
         | Suc n' \<Rightarrow>
             (let (evs, w'', fin) = deliver send m auth address body ch rs n' w'
              in (SendMail args err # Publish ch \<lparr>Error = err\<rparr> # evs, w'', fin)))"

definition events :: "event list \<times> 'w \<times> bool \<Rightarrow> event list" where
  "events res = fst res"

definition returns :: "event list \<times> 'w \<times> bool \<Rightarrow> bool" where
  "returns res = snd (snd res)"

text \<open>The body of the outer loop, lines 135 to 154, for one request \<open>cmd\<close>.\<close>

definition dispatch ::
  "'w smtp \<Rightarrow> MailConfig \<Rightarrow> Auth \<Rightarrow> string \<Rightarrow> EmailSendRequest \<Rightarrow> string list \<Rightarrow> nat \<Rightarrow> 'w
    \<Rightarrow> event list \<times> 'w \<times> bool" where
  "dispatch send m auth address cmd ks n w =
     (case template m cmd of
        Inl err \<Rightarrow>
          (case n of
             0 \<Rightarrow> ([], w, False)
           | Suc n' \<Rightarrow> ([Publish (Result cmd) \<lparr>Error = Some err\<rparr>], w, True))
      | Inr body \<Rightarrow>
          deliver send m auth address body (Result cmd) (range_values (Recipients m) ks) n w)"

text \<open>
  The outer loop, \<open>for cmd := range ch\<close>: the requests in the order the worker receives
  them, each with the key order of its \<open>range\<close> and the number of outcomes its sender
  takes. A worker that stays in a send receives no further request.
\<close>

fun serve_requests ::
  "'w smtp \<Rightarrow> MailConfig \<Rightarrow> Auth \<Rightarrow> string \<Rightarrow> (EmailSendRequest \<times> string list \<times> nat) list \<Rightarrow> 'w
    \<Rightarrow> event list \<times> 'w \<times> bool" where
  "serve_requests send m auth address [] w = ([], w, True)"
| "serve_requests send m auth address ((cmd, ks, n) # rest) w =
     (let (evs, w', fin) = dispatch send m auth address cmd ks n w
      in if fin
         then (let (evs', w'', fin') = serve_requests send m auth address rest w'
               in (evs @ evs', w'', fin'))
         else (evs, w', False))"

definition worker_auth :: "MailConfig \<Rightarrow> Auth" where
  "worker_auth m =
     PlainAuth '''' (Address (Sender m)) (Password (Sender m)) (Host (Sender m))"

definition worker_address :: "MailConfig \<Rightarrow> string" where
  "worker_address m = Host (Sender m) @ '':'' @ show_int (Port (Sender m))"

text \<open>
  One pass of the loop body in the worker that the process starts on \<open>m\<close>
  (\<open>go cfg.EmailConfig.EmailerInstance(emailChan)\<close>, line 216).
\<close>

definition cycle ::
  "'w smtp \<Rightarrow> MailConfig \<Rightarrow> EmailSendRequest \<Rightarrow> string list \<Rightarrow> nat \<Rightarrow> 'w
    \<Rightarrow> event list \<times> 'w \<times> bool" where
  "cycle send m cmd ks n w = dispatch send m (worker_auth m) (worker_address m) cmd ks n w"

definition EmailerInstance ::
  "'w smtp \<Rightarrow> MailConfig \<Rightarrow> (EmailSendRequest \<times> string list \<times> nat) list \<Rightarrow> 'w
    \<Rightarrow> event list \<times> 'w \<times> bool" where
  "EmailerInstance send m reqs w =
     serve_requests send m (worker_auth m) (worker_address m) reqs w"

section \<open>The request gateway\<close>

text \<open>
  Of an inbound HTTP request the handler reads the method, the remote address and the
  form. \<open>ParseForm\<close> is the result of \<open>r.ParseForm()\<close>, \<open>Form\<close> the values it leaves
  in \<open>r.Form\<close>: for each key the values given, in order.
\<close>

record Request =
  Method :: string
  RemoteAddr :: string
  ParseForm :: "error option"
  Form :: "string \<rightharpoonup> string list"

record Response =
  Status :: nat
  Body :: string

text \<open>\<open>r.FormValue(key)\<close>: the first value of the key, the empty string when there is none.\<close>

definition FormValue :: "Request \<Rightarrow> string \<Rightarrow> string" where
  "FormValue r key =
     (case Form r key of
        None \<Rightarrow> []
      | Some [] \<Rightarrow> []
      | Some (v # vs) \<Rightarrow> v)"

text \<open>\<open>http.Error(w, msg, code)\<close> writes the status and the message followed by a newline.\<close>

definition http_Error :: "string \<Rightarrow> nat \<Rightarrow> Response" where
  "http_Error msg code = \<lparr>Status = code, Body = msg @ [newline]\<rparr>"

definition StatusBadRequest :: nat where
  "StatusBadRequest = 400"

definition StatusInternalServerError :: nat where
  "StatusInternalServerError = 500"

definition StatusNotImplemented :: nat where
  "StatusNotImplemented = 501"

definition StatusOK :: nat where
  "StatusOK = 200"

record server =
  config :: ServerConfig

text \<open>
  The worker is one goroutine, and a handler meets it only at the two channels: the
  state of the running process is the state of the outside world, whether the worker
  stays in a send forever, what the worker has done so far, the lines written to the
  error log, and the number of reply channels made.
\<close>

record 'w system =
  world :: 'w
  worker_stuck :: bool
  trace :: "event list"
  errlog :: "string list"
  chans :: nat

definition init :: "'w \<Rightarrow> 'w system" where
  "init w = \<lparr>world = w, worker_stuck = False, trace = [], errlog = [], chans = 0\<rparr>"

text \<open>
  Lines 174 and 175: \<open>s.emailSender <- data\<close>, then \<open>outcome := <-result\<close>. The request
  channel is unbuffered as well, so the send returns when the worker receives \<open>data\<close>,
  which a worker that stays in a send never does. The worker then runs its loop body on
  \<open>data\<close>; the handler takes one value from \<open>result\<close>, and \<open>None\<close> says that
  the handler waits forever.
\<close>

definition submit ::
  "'w smtp \<Rightarrow> MailConfig \<Rightarrow> string list \<Rightarrow> EmailSendRequest \<Rightarrow> 'w system
    \<Rightarrow> EmailSendOutcome option \<times> 'w system" where
  "submit send m ks data st =
     (if worker_stuck st then (None, st)
      else
        (let (evs, w', fin) = cycle send m data ks 1 (world st);
             st' = st\<lparr>world := w', worker_stuck := \<not> fin, trace := trace st @ evs\<rparr>
         in case outcomes (Result data) evs of
              [] \<Rightarrow> (None, st')
            | outcome # rest \<Rightarrow> (Some outcome, st')))"

definition log_line :: "EmailSendRequest \<Rightarrow> error \<Rightarrow> string" where
  "log_line data err =
     ''Error handling client (IP: '' @ IPAddress data @
     '', Name: '' @ (FirstName data @ '' '' @ LastName data) @
     '', Company: '' @ CompanyName data @
     '', Email: '' @ EmailAddress data @ ''): '' @ err"

text \<open>Lines 165 to 173: the request built from the form, with the fresh channel \<open>result\<close>.\<close>

definition make_request :: "Request \<Rightarrow> chan \<Rightarrow> EmailSendRequest" where
  "make_request r result =
     \<lparr>IPAddress = RemoteAddr r,
      FirstName = FormValue r ''firstName'',
      LastName = FormValue r ''lastName'',
      CompanyName = FormValue r ''company'',
      EmailAddress = FormValue r ''email'',
      Description = FormValue r ''description'',
      Result = result\<rparr>"

text \<open>
  The handler, lines 158 to 192. \<open>ks\<close> is the key order of the worker's \<open>range\<close> for
  this request. The response is \<open>None\<close> when the handler never returns.
\<close>

definition clientHandler ::
  "'w smtp \<Rightarrow> server \<Rightarrow> string list \<Rightarrow> Request \<Rightarrow> 'w system \<Rightarrow> Response option \<times> 'w system" where
  "clientHandler send s ks r st =
     (if Method r = ''POST'' then
        (case ParseForm r of
           Some err \<Rightarrow> (Some (http_Error ''Invalid Form'' StatusBadRequest), st)
         | None \<Rightarrow>
             (let data = make_request r (chans st);
                  (got, st') =
                    submit send (EmailConfig (config s)) ks data (st\<lparr>chans := Suc (chans st)\<rparr>)
              in case got of
                   None \<Rightarrow> (None, st')
                 | Some outcome \<Rightarrow>
                     (case Error outcome of
                        Some err \<Rightarrow>
                          (Some (http_Error ''Internal Error'' StatusInternalServerError),
                           st'\<lparr>errlog := errlog st' @ [log_line data err]\<rparr>)
                      | None \<Rightarrow> (Some \<lparr>Status = StatusOK, Body = ''Success!''\<rparr>, st'))))
      else (Some (http_Error ''Invalid request'' StatusNotImplemented), st))"

text \<open>The inbound requests, in the order in which the worker meets their handlers.\<close>

fun serve ::
  "'w smtp \<Rightarrow> server \<Rightarrow> (Request \<times> string list) list \<Rightarrow> 'w system
    \<Rightarrow> Response option list \<times> 'w system" where
  "serve send s [] st = ([], st)"
| "serve send s ((r, ks) # rest) st =
     (let (resp, st') = clientHandler send s ks r st;
          (resps, st'') = serve send s rest st'
      in (resp # resps, st''))"

section \<open>The template engine\<close>

text \<open>
  Modelled from the spec: the template engine (\<open>template.New("Body").Parse\<close> and
  \<open>Execute\<close> of Go's \<open>text/template\<close>) is not under \<open>src/\<close>. The spec gives it the contract
  \<open>compile(templateText) -> CompiledTemplate | fails with TemplateSyntaxError\<close> and
  \<open>render(CompiledTemplate, SendRequest) -> RenderedBody | fails with RenderExecutionError\<close>,
  with the fields of the request as the only substitution namespace and an unknown field
  a render-time error. The model covers literal text and the action \<open>{{.Field}}\<close>; every
  other action is a syntax error here.
\<close>

datatype node = TextNode string | FieldNode string

datatype mode = InText | InAction

definition is_space :: "char \<Rightarrow> bool" where
  "is_space c \<longleftrightarrow> c = CHR '' '' \<or> c = CHR 0x09 \<or> c = CHR 0x0A \<or> c = CHR 0x0D"

definition is_ident_char :: "char \<Rightarrow> bool" where
  "is_ident_char c \<longleftrightarrow>
     (let k = (of_char c :: nat)
      in (65 \<le> k \<and> k \<le> 90) \<or> (97 \<le> k \<and> k \<le> 122) \<or> (48 \<le> k \<and> k \<le> 57) \<or> k = 95)"

definition trim :: "string \<Rightarrow> string" where
  "trim s = rev (dropWhile is_space (rev (dropWhile is_space s)))"

definition action :: "string \<Rightarrow> error + node" where
  \<comment> \<open>Modelled from the spec: the one action of the model, a field of the request.\<close>
  "action s =
     (case trim s of
        [] \<Rightarrow> Inl ''template: Body: missing value for command''
      | c # f \<Rightarrow>
          (if c = CHR ''.'' \<and> f \<noteq> [] \<and> list_all is_ident_char f then Inr (FieldNode f)
           else Inl ''template: Body: unexpected action''))"

fun parse_from :: "mode \<Rightarrow> string \<Rightarrow> string \<Rightarrow> error + node list" where
  \<comment> \<open>Modelled from the spec: \<open>compile\<close>, one pass over the text.\<close>
  "parse_from InText acc [] = Inr (if acc = [] then [] else [TextNode (rev acc)])"
| "parse_from InAction acc [] = Inl ''template: Body: unclosed action''"
| "parse_from InText acc [c] = Inr [TextNode (rev (c # acc))]"
| "parse_from InAction acc [c] = Inl ''template: Body: unclosed action''"
| "parse_from InText acc (c # d # cs) =
     (if c = CHR ''{'' \<and> d = CHR ''{'' then
        (case parse_from InAction [] cs of
           Inl e \<Rightarrow> Inl e
         | Inr ns \<Rightarrow> Inr (if acc = [] then ns else TextNode (rev acc) # ns))
      else parse_from InText (c # acc) (d # cs))"
| "parse_from InAction acc (c # d # cs) =
     (if c = CHR ''}'' \<and> d = CHR ''}'' then
        (case action (rev acc) of
           Inl e \<Rightarrow> Inl e
         | Inr nd \<Rightarrow>
             (case parse_from InText [] cs of
                Inl e \<Rightarrow> Inl e
              | Inr ns \<Rightarrow> Inr (nd # ns)))
      else parse_from InAction (c # acc) (d # cs))"

definition Parse :: "string \<Rightarrow> error + node list" where
  \<comment> \<open>Modelled from the spec: \<open>compile\<close>.\<close>
  "Parse text = parse_from InText [] text"

definition lookup_field :: "EmailSendRequest \<Rightarrow> string \<Rightarrow> string option" where
  \<comment> \<open>Modelled from the spec: the substitution namespace, the caller's fields by name.\<close>
  "lookup_field cmd f =
     (if f = ''IPAddress'' then Some (IPAddress cmd)
      else if f = ''FirstName'' then Some (FirstName cmd)
      else if f = ''LastName'' then Some (LastName cmd)
      else if f = ''CompanyName'' then Some (CompanyName cmd)
      else if f = ''EmailAddress'' then Some (EmailAddress cmd)
      else if f = ''Description'' then Some (Description cmd)
      else None)"

fun Execute :: "node list \<Rightarrow> EmailSendRequest \<Rightarrow> error + string" where
  \<comment> \<open>Modelled from the spec: \<open>render\<close>; the first failing action ends the rendering.\<close>
  "Execute [] cmd = Inr []"
| "Execute (TextNode s # ns) cmd =
     (case Execute ns cmd of Inl e \<Rightarrow> Inl e | Inr out \<Rightarrow> Inr (s @ out))"
| "Execute (FieldNode f # ns) cmd =
     (case lookup_field cmd f of
        None \<Rightarrow> Inl (''template: Body: cannot evaluate field '' @ f)
      | Some v \<Rightarrow>
          (case Execute ns cmd of Inl e \<Rightarrow> Inl e | Inr out \<Rightarrow> Inr (v @ out)))"

text \<open>
  Lines 119 and 120 of \<open>getConfig\<close>: the template text of the configuration is compiled,
  and an error there is fatal (\<open>Inl\<close>: the process exits).
\<close>

definition load_template :: "MailConfig \<Rightarrow> error + MailConfig" where
  "load_template m =
     (case Parse (TemplateText m) of
        Inl e \<Rightarrow> Inl (''@PARSING EMAIL TEMPLATE: '' @ e)
      | Inr t \<Rightarrow> Inr (m\<lparr>template := Execute t\<rparr>))"

section \<open>A small installation\<close>

definition demo_sender :: SenderConfig where
  "demo_sender =
     \<lparr>Host = ''mail.example.org'', Port = 587, Address = ''docs@example.org'',
      Name = ''Docs'', Password = ''hunter2''\<rparr>"

definition demo_header :: Header where
  "demo_header =
     \<lparr>From = ''docs@example.org'', Subject = ''Documents requested'',
      MIME = ''MIME-version: 1.0;'', Miscellaneous = ''''\<rparr>"

definition ana :: Recipient where
  "ana = \<lparr>R_Name = ''Ana'', R_Title = ''Ms'', R_Address = ''ana@example.org'',
           R_Miscellaneous = YNull\<rparr>"

definition bob :: Recipient where
  "bob = \<lparr>R_Name = ''Bob'', R_Title = ''Mr'', R_Address = ''bob@example.org'',
           R_Miscellaneous = YNull\<rparr>"

definition eve :: Recipient where
  "eve = \<lparr>R_Name = ''Eve'', R_Title = ''Dr'', R_Address = ''eve@example.org'',
           R_Miscellaneous = YString ''sales''\<rparr>"

definition nobody :: "string \<rightharpoonup> Recipient" where
  "nobody = Map.empty"

definition two_recipients :: "string \<rightharpoonup> Recipient" where
  "two_recipients = [''a'' \<mapsto> ana, ''b'' \<mapsto> bob]"

definition three_recipients :: "string \<rightharpoonup> Recipient" where
  "three_recipients = [''a'' \<mapsto> ana, ''b'' \<mapsto> bob, ''e'' \<mapsto> eve]"

text \<open>Two compiled templates: one that renders every request, one that renders none.\<close>

definition greeting :: "EmailSendRequest \<Rightarrow> error + string" where
  "greeting cmd = Inr (''Hello '' @ FirstName cmd)"

definition broken :: "EmailSendRequest \<Rightarrow> error + string" where
  "broken cmd = Inl ''template: Body: cannot evaluate field Phone''"

definition demo_mail ::
  "(string \<rightharpoonup> Recipient) \<Rightarrow> (EmailSendRequest \<Rightarrow> error + string) \<Rightarrow> MailConfig" where
  "demo_mail dir t =
     \<lparr>Sender = demo_sender, Recipients = dir, Header = demo_header,
      TemplateText = '''', template = t\<rparr>"

definition demo_server ::
  "(string \<rightharpoonup> Recipient) \<Rightarrow> (EmailSendRequest \<Rightarrow> error + string) \<Rightarrow> server" where
  "demo_server dir t =
     \<lparr>config = \<lparr>Server_Address = ''localhost:8082'', BaseURL = ''/'',
                 EmailConfig = demo_mail dir t\<rparr>\<rparr>"

definition demo_request :: "chan \<Rightarrow> EmailSendRequest" where
  "demo_request ch =
     \<lparr>IPAddress = ''10.0.0.7:4711'', FirstName = ''Ana'', LastName = ''Lee'',
      CompanyName = ''NTC'', EmailAddress = ''lee@example.com'',
      Description = ''manual'', Result = ch\<rparr>"

definition demo_post :: Request where
  "demo_post =
     \<lparr>Method = ''POST'', RemoteAddr = ''10.0.0.7:4711'', ParseForm = None,
      Form = [''firstName'' \<mapsto> [''Ana''], ''email'' \<mapsto> [''lee@example.com'']]\<rparr>"

definition demo_get :: Request where
  "demo_get =
     \<lparr>Method = ''GET'', RemoteAddr = ''10.0.0.7:4711'', ParseForm = None,
      Form = Map.empty\<rparr>"

text \<open>Two mail servers; the state of the world counts the calls made.\<close>

definition accept_all :: "nat smtp" where
  "accept_all w args = (None, Suc w)"

definition reject :: "string \<Rightarrow> nat smtp" where
  "reject bad w args =
     (if sm_to args = [bad] then Some ''550 mailbox unavailable'' else None, Suc w)"

section \<open>The loops, step by step\<close>

lemma deliver_fin:
  "deliver send m auth address body ch rs n w = (evs, w', fin) \<Longrightarrow> fin \<longleftrightarrow> length rs \<le> n"
proof (induction rs arbitrary: n w evs w' fin)
  case Nil
  then show ?case by simp
next
  case (Cons r rs)
  then show ?case
    by (cases n) (auto simp: Let_def split: prod.splits)
qed

lemma deliver_returns:
  "returns (deliver send m auth address body ch rs n w) \<longleftrightarrow> length rs \<le> n"
  using deliver_fin [of send m auth address body ch rs n w]
  by (cases "deliver send m auth address body ch rs n w") (simp add: returns_def)

lemma deliver_outcomes:
  "deliver send m auth address body ch rs n w = (evs, w', fin) \<Longrightarrow>
   length (outcomes ch evs) = min n (length rs)"
proof (induction rs arbitrary: n w evs w' fin)
  case Nil
  then show ?case by simp
next
  case (Cons r rs)
  then show ?case
    by (cases n) (auto simp: Let_def split: prod.splits)
qed

lemma deliver_outcomes_length:
  "length (outcomes ch (events (deliver send m auth address body ch rs n w))) = min n (length rs)"
  using deliver_outcomes [of send m auth address body ch rs n w]
  by (cases "deliver send m auth address body ch rs n w") (simp add: events_def)

lemma deliver_calls_eq:
  "deliver send m auth address body ch rs n w = (evs, w', fin) \<Longrightarrow>
   map fst (calls evs) =
     map (\<lambda>r. \<lparr>sm_addr = address, sm_auth = auth, sm_from = Address (Sender m),
                sm_to = [R_Address r],
                sm_msg = ToString (Header m) (R_Address r) @ body\<rparr>) (take (Suc n) rs)"
proof (induction rs arbitrary: n w evs w' fin)
  case Nil
  then show ?case by simp
next
  case (Cons r rs)
  then show ?case
    by (cases n) (auto simp: Let_def split: prod.splits)
qed

lemma deliver_calls:
  "map fst (calls (events (deliver send m auth address body ch rs n w))) =
     map (\<lambda>r. \<lparr>sm_addr = address, sm_auth = auth, sm_from = Address (Sender m),
                sm_to = [R_Address r],
                sm_msg = ToString (Header m) (R_Address r) @ body\<rparr>) (take (Suc n) rs)"
  using deliver_calls_eq [of send m auth address body ch rs n w]
  by (cases "deliver send m auth address body ch rs n w") (simp add: events_def)

lemma deliver_results_eq:
  "deliver send m auth address body ch rs n w = (evs, w', fin) \<Longrightarrow>
   map Error (outcomes ch evs) = take n (map snd (calls evs))"
proof (induction rs arbitrary: n w evs w' fin)
  case Nil
  then show ?case by simp
next
  case (Cons r rs)
  then show ?case
    by (cases n) (auto simp: Let_def split: prod.splits)
qed

lemma deliver_results:
  "map Error (outcomes ch (events (deliver send m auth address body ch rs n w))) =
     take n (map snd (calls (events (deliver send m auth address body ch rs n w))))"
  using deliver_results_eq [of send m auth address body ch rs n w]
  by (cases "deliver send m auth address body ch rs n w") (simp add: events_def)

lemma range_values_length:
  "set ks \<subseteq> dom m \<Longrightarrow> length (range_values m ks) = length ks"
  by (induction ks) (auto simp: range_values_def split: option.splits)

lemma range_order_card:
  "range_order m ks \<Longrightarrow> length (range_values m ks) = card (dom m)"
  using range_values_length [of ks m] distinct_card [of ks]
  by (simp add: range_order_def)

section \<open>Outcomes per request\<close>

text \<open>
  C1, as the code has it. A pass of the loop body that comes back to the head of the loop
  (every send on the reply channel was taken) has published one outcome per recipient of
  the directory when the template rendered, and exactly one outcome when it did not,
  whatever the number of recipients.
\<close>

theorem C1_outcome_count:
  assumes "range_order (Recipients m) ks"
    and "returns (dispatch send m auth address cmd ks n w)"
  shows "length (outcomes (Result cmd) (events (dispatch send m auth address cmd ks n w))) =
           (case template m cmd of Inl err \<Rightarrow> 1 | Inr body \<Rightarrow> card (dom (Recipients m)))"
proof (cases "template m cmd")
  case (Inl err)
  with assms(2) show ?thesis
    by (cases n) (simp_all add: dispatch_def returns_def events_def)
next
  case (Inr body)
  with assms(2) have "length (range_values (Recipients m) ks) \<le> n"
    by (simp add: dispatch_def deliver_returns)
  with Inr show ?thesis
    using range_order_card [OF assms(1)]
    by (simp add: dispatch_def deliver_outcomes_length)
qed

text \<open>
  C1 at two recipients, a template that renders, a mail server that accepts and a reader
  that takes two outcomes: two outcomes are published.
\<close>

theorem C1_outcome_count_witness:
  "range_order (Recipients (demo_mail two_recipients greeting)) [''b'', ''a''] \<and>
   returns (cycle accept_all (demo_mail two_recipients greeting) (demo_request 0)
     [''b'', ''a''] 2 0) \<and>
   length (outcomes (Result (demo_request 0))
     (events (cycle accept_all (demo_mail two_recipients greeting) (demo_request 0)
        [''b'', ''a''] 2 0))) = 2"
proof -
  have order: "range_order (Recipients (demo_mail two_recipients greeting)) [''b'', ''a'']"
    by (auto simp: range_order_def demo_mail_def two_recipients_def)
  have ret: "returns (dispatch accept_all (demo_mail two_recipients greeting)
      (worker_auth (demo_mail two_recipients greeting))
      (worker_address (demo_mail two_recipients greeting)) (demo_request 0) [''b'', ''a''] 2 0)"
    by (simp add: dispatch_def demo_mail_def greeting_def range_values_def two_recipients_def
        accept_all_def returns_def numeral_2_eq_2)
  have "card (dom (Recipients (demo_mail two_recipients greeting))) = 2"
    by (simp add: demo_mail_def two_recipients_def)
  with C1_outcome_count [OF order ret] order ret show ?thesis
    by (simp add: cycle_def demo_mail_def greeting_def)
qed

text \<open>
  C1 as the spec states it fails when rendering fails: with two recipients in the
  directory and a reader that takes two outcomes, the pass publishes one outcome and is
  back at the head of the loop.
\<close>

theorem C1_render_failure_counterexample:
  "range_order (Recipients (demo_mail two_recipients broken)) [''a'', ''b''] \<and>
   card (dom (Recipients (demo_mail two_recipients broken))) = 2 \<and>
   returns (cycle accept_all (demo_mail two_recipients broken) (demo_request 0)
     [''a'', ''b''] 2 0) \<and>
   length (outcomes (Result (demo_request 0))
     (events (cycle accept_all (demo_mail two_recipients broken) (demo_request 0)
        [''a'', ''b''] 2 0))) = 1"
  by (auto simp: cycle_def dispatch_def demo_mail_def broken_def demo_request_def numeral_2_eq_2
      events_def returns_def range_order_def two_recipients_def)

section \<open>A template that does not render\<close>

text \<open>
  C3, as the code has it. When rendering fails and the sender of the request takes an
  outcome, the pass publishes exactly one outcome, which carries the render error,
  whatever the directory holds; it makes no call of \<open>smtp.SendMail\<close> and leaves the
  outside world as it was; and the worker goes on with the next request.
\<close>

theorem C3_render_failure:
  assumes "template m cmd = Inl err" and "0 < n"
  shows "dispatch send m auth address cmd ks n w =
           ([Publish (Result cmd) \<lparr>Error = Some err\<rparr>], w, True) \<and>
         calls (events (dispatch send m auth address cmd ks n w)) = [] \<and>
         serve_requests send m auth address ((cmd, ks, n) # rest) w =
           (case serve_requests send m auth address rest w of
              (evs, after) \<Rightarrow> (Publish (Result cmd) \<lparr>Error = Some err\<rparr> # evs, after))"
proof -
  from assms obtain n' where n: "n = Suc n'"
    by (cases n) simp_all
  with assms(1) have one: "dispatch send m auth address cmd ks n w =
      ([Publish (Result cmd) \<lparr>Error = Some err\<rparr>], w, True)"
    by (simp add: dispatch_def)
  then show ?thesis
    by (simp add: events_def split: prod.splits)
qed

text \<open>
  C3 at three recipients and two requests: one outcome for each request, no mail sent.
\<close>

theorem C3_render_failure_witness:
  "template (demo_mail three_recipients broken) (demo_request 0) =
     Inl ''template: Body: cannot evaluate field Phone'' \<and> (0::nat) < 1 \<and>
   EmailerInstance accept_all (demo_mail three_recipients broken)
     [(demo_request 0, [''a'', ''b'', ''e''], 1), (demo_request 1, [''e'', ''a'', ''b''], 1)] 0 =
     ([Publish 0 \<lparr>Error = Some ''template: Body: cannot evaluate field Phone''\<rparr>,
       Publish 1 \<lparr>Error = Some ''template: Body: cannot evaluate field Phone''\<rparr>], 0, True)"
proof -
  have t0: "template (demo_mail three_recipients broken) (demo_request 0) =
      Inl ''template: Body: cannot evaluate field Phone''"
    by (simp add: demo_mail_def broken_def)
  have t1: "template (demo_mail three_recipients broken) (demo_request 1) =
      Inl ''template: Body: cannot evaluate field Phone''"
    by (simp add: demo_mail_def broken_def)
  have pos: "(0::nat) < 1"
    by simp
  show ?thesis
    using C3_render_failure [OF t0 pos, where send = accept_all
        and auth = "worker_auth (demo_mail three_recipients broken)"
        and address = "worker_address (demo_mail three_recipients broken)"
        and ks = "[''a'', ''b'', ''e'']"
        and rest = "[(demo_request 1, [''e'', ''a'', ''b''], 1)]" and w = 0]
      C3_render_failure [OF t1 pos, where send = accept_all
        and auth = "worker_auth (demo_mail three_recipients broken)"
        and address = "worker_address (demo_mail three_recipients broken)"
        and ks = "[''e'', ''a'', ''b'']" and rest = "[]" and w = 0]
      t0
    by (simp add: EmailerInstance_def demo_request_def)
qed

text \<open>
  C3 as the spec states it fails: with three recipients in the directory and a reader that
  takes three outcomes, a render error gives one failure outcome, not three.
\<close>

theorem C3_one_outcome_counterexample:
  "card (dom (Recipients (demo_mail three_recipients broken))) = 3 \<and>
   cycle accept_all (demo_mail three_recipients broken) (demo_request 0)
     [''a'', ''b'', ''e''] 3 0 =
     ([Publish 0 \<lparr>Error = Some ''template: Body: cannot evaluate field Phone''\<rparr>], 0, True)"
  by (simp add: cycle_def dispatch_def demo_mail_def broken_def demo_request_def numeral_3_eq_3
      three_recipients_def)

section \<open>The message of each delivery\<close>

text \<open>
  C5. When the template renders the request to \<open>body\<close>, the calls of \<open>smtp.SendMail\<close> in
  the pass are, in order, one for each recipient reached: to that recipient's address
  alone, with the bytes of the header stringified for that address followed by \<open>body\<close>.
  The body is the one rendering of the request, the same bytes in every call. (The loop
  reaches the recipients up to the first whose outcome nobody takes.)
\<close>

theorem C5_message_bytes:
  assumes "template m cmd = Inr body"
  shows "map (\<lambda>(args, err). (sm_to args, sm_msg args))
           (calls (events (dispatch send m auth address cmd ks n w))) =
         map (\<lambda>r. ([R_Address r], ToString (Header m) (R_Address r) @ body))
           (take (Suc n) (range_values (Recipients m) ks))"
proof -
  let ?cs = "calls (events (dispatch send m auth address cmd ks n w))"
  from assms have "map fst ?cs =
      map (\<lambda>r. \<lparr>sm_addr = address, sm_auth = auth, sm_from = Address (Sender m),
                 sm_to = [R_Address r],
                 sm_msg = ToString (Header m) (R_Address r) @ body\<rparr>)
        (take (Suc n) (range_values (Recipients m) ks))"
    by (simp add: dispatch_def deliver_calls)
  then have "map (\<lambda>args. (sm_to args, sm_msg args)) (map fst ?cs) =
      map (\<lambda>r. ([R_Address r], ToString (Header m) (R_Address r) @ body))
        (take (Suc n) (range_values (Recipients m) ks))"
    by (simp add: o_def)
  then show ?thesis
    by (simp add: o_def split_def)
qed

text \<open>C5 at two recipients: the two messages differ in the \<open>To\<close> line only.\<close>

theorem C5_message_bytes_witness:
  "template (demo_mail two_recipients greeting) (demo_request 0) = Inr ''Hello Ana'' \<and>
   map (\<lambda>(args, err). (sm_to args, sm_msg args))
     (calls (events (cycle accept_all (demo_mail two_recipients greeting) (demo_request 0)
        [''a'', ''b''] 2 0))) =
   [([''ana@example.org''],
     ''From: docs@example.org'' @ [newline] @ ''To: ana@example.org'' @ [newline] @
     ''Subject: Documents requested'' @ [newline] @ ''MIME-version: 1.0;'' @ [newline] @
     [newline] @ ''Hello Ana''),
    ([''bob@example.org''],
     ''From: docs@example.org'' @ [newline] @ ''To: bob@example.org'' @ [newline] @
     ''Subject: Documents requested'' @ [newline] @ ''MIME-version: 1.0;'' @ [newline] @
     [newline] @ ''Hello Ana'')]"
proof -
  have t: "template (demo_mail two_recipients greeting) (demo_request 0) = Inr ''Hello Ana''"
    by (simp add: demo_mail_def greeting_def demo_request_def)
  show ?thesis
    using t C5_message_bytes [OF t, where send = accept_all
        and auth = "worker_auth (demo_mail two_recipients greeting)"
        and address = "worker_address (demo_mail two_recipients greeting)"
        and ks = "[''a'', ''b'']" and n = 2 and w = 0]
    by (simp add: cycle_def demo_mail_def range_values_def two_recipients_def ana_def bob_def
        ToString_def demo_header_def)
qed

section \<open>The order of the recipients\<close>

text \<open>
  C7, as the code has it. In a pass that renders and comes back to the head of the loop,
  the recipients are attempted in the key order \<open>ks\<close> of that pass's \<open>range\<close>, and the
  outcomes on the reply channel are the results of those calls in the same order. The
  order is that of the one \<open>range\<close> statement; the code does nothing that makes two passes
  agree on it.
\<close>

theorem C7_outcomes_in_range_order:
  assumes "template m cmd = Inr body"
    and "returns (dispatch send m auth address cmd ks n w)"
  shows "map (\<lambda>(args, err). sm_to args)
           (calls (events (dispatch send m auth address cmd ks n w))) =
         map (\<lambda>r. [R_Address r]) (range_values (Recipients m) ks) \<and>
         map Error (outcomes (Result cmd) (events (dispatch send m auth address cmd ks n w))) =
         map snd (calls (events (dispatch send m auth address cmd ks n w)))"
proof -
  let ?rs = "range_values (Recipients m) ks"
  let ?evs = "events (deliver send m auth address body (Result cmd) ?rs n w)"
  from assms have fits: "length ?rs \<le> n"
    by (simp add: dispatch_def deliver_returns)
  have "map (\<lambda>(args, err). sm_to args) (calls ?evs) = map sm_to (map fst (calls ?evs))"
    by (simp add: case_prod_beta)
  with fits have attempted: "map (\<lambda>(args, err). sm_to args) (calls ?evs) =
      map (\<lambda>r. [R_Address r]) ?rs"
    by (simp add: deliver_calls o_def)
  have "length (calls ?evs) = length (map fst (calls ?evs))"
    by simp
  with fits have "length (calls ?evs) \<le> n"
    by (simp only: deliver_calls) simp
  then have "map Error (outcomes (Result cmd) ?evs) = map snd (calls ?evs)"
    by (simp add: deliver_results)
  with attempted assms(1) show ?thesis
    by (simp add: dispatch_def)
qed

text \<open>
  C7 at two recipients, with a mail server that refuses Bob: in the key order b, a the
  failure comes first.
\<close>

theorem C7_outcomes_in_range_order_witness:
  "template (demo_mail two_recipients greeting) (demo_request 0) = Inr ''Hello Ana'' \<and>
   returns (cycle (reject ''bob@example.org'') (demo_mail two_recipients greeting)
     (demo_request 0) [''b'', ''a''] 2 0) \<and>
   map (\<lambda>(args, err). sm_to args)
     (calls (events (cycle (reject ''bob@example.org'') (demo_mail two_recipients greeting)
        (demo_request 0) [''b'', ''a''] 2 0))) =
     [[''bob@example.org''], [''ana@example.org'']] \<and>
   map Error (outcomes 0
     (events (cycle (reject ''bob@example.org'') (demo_mail two_recipients greeting)
        (demo_request 0) [''b'', ''a''] 2 0))) =
     [Some ''550 mailbox unavailable'', None]"
proof -
  have t: "template (demo_mail two_recipients greeting) (demo_request 0) = Inr ''Hello Ana''"
    by (simp add: demo_mail_def greeting_def demo_request_def)
  have ret: "returns (dispatch (reject ''bob@example.org'') (demo_mail two_recipients greeting)
      (worker_auth (demo_mail two_recipients greeting))
      (worker_address (demo_mail two_recipients greeting)) (demo_request 0) [''b'', ''a''] 2 0)"
    by (simp add: dispatch_def demo_mail_def greeting_def range_values_def two_recipients_def
        reject_def returns_def numeral_2_eq_2)
  have res: "map snd (calls (events (dispatch (reject ''bob@example.org'')
      (demo_mail two_recipients greeting) (worker_auth (demo_mail two_recipients greeting))
      (worker_address (demo_mail two_recipients greeting)) (demo_request 0) [''b'', ''a''] 2 0))) =
      [Some ''550 mailbox unavailable'', None]"
    by (simp add: dispatch_def demo_mail_def greeting_def range_values_def two_recipients_def
        reject_def events_def numeral_2_eq_2 ana_def bob_def)
  show ?thesis
    using t ret res C7_outcomes_in_range_order [OF t ret]
    by (simp add: cycle_def demo_mail_def range_values_def two_recipients_def ana_def bob_def
        demo_request_def)
qed

text \<open>
  C7 as the spec states it fails: a, b and b, a are both key orders of the same
  directory, and the two passes attempt the recipients, and publish the outcomes, in
  different orders.
\<close>

theorem C7_two_orders_counterexample:
  "range_order (Recipients (demo_mail two_recipients greeting)) [''a'', ''b''] \<and>
   range_order (Recipients (demo_mail two_recipients greeting)) [''b'', ''a''] \<and>
   map (\<lambda>(args, err). sm_to args)
     (calls (events (cycle (reject ''bob@example.org'') (demo_mail two_recipients greeting)
        (demo_request 0) [''a'', ''b''] 2 0))) \<noteq>
   map (\<lambda>(args, err). sm_to args)
     (calls (events (cycle (reject ''bob@example.org'') (demo_mail two_recipients greeting)
        (demo_request 0) [''b'', ''a''] 2 0))) \<and>
   outcomes 0
     (events (cycle (reject ''bob@example.org'') (demo_mail two_recipients greeting)
        (demo_request 0) [''a'', ''b''] 2 0)) \<noteq>
   outcomes 0
     (events (cycle (reject ''bob@example.org'') (demo_mail two_recipients greeting)
        (demo_request 0) [''b'', ''a''] 2 0))"
proof -
  have "range_order (Recipients (demo_mail two_recipients greeting)) [''a'', ''b'']"
    and "range_order (Recipients (demo_mail two_recipients greeting)) [''b'', ''a'']"
    by (auto simp: range_order_def demo_mail_def two_recipients_def)
  then show ?thesis
    by (simp add: cycle_def dispatch_def demo_mail_def greeting_def range_values_def
        two_recipients_def reject_def events_def numeral_2_eq_2 ana_def bob_def
        demo_request_def)
qed

section \<open>The gateway\<close>

lemma dispatch_outcomes_bound:
  "length (outcomes (Result cmd) (events (dispatch send m auth address cmd ks n w))) \<le> n"
proof (cases "template m cmd")
  case (Inl err)
  then show ?thesis
    by (cases n) (simp_all add: dispatch_def events_def)
next
  case (Inr body)
  then show ?thesis
    by (simp add: dispatch_def deliver_outcomes_length)
qed

lemma cycle_one_outcome:
  "cycle send m data ks 1 w = (evs, w', fin) \<Longrightarrow>
   outcomes (Result data) evs = [] \<or> (\<exists>outcome. outcomes (Result data) evs = [outcome])"
proof -
  assume run: "cycle send m data ks 1 w = (evs, w', fin)"
  have "length (outcomes (Result data) (events (cycle send m data ks 1 w))) \<le> 1"
    unfolding cycle_def by (rule dispatch_outcomes_bound)
  with run have "length (outcomes (Result data) evs) \<le> 1"
    by (simp add: events_def)
  then show ?thesis
    by (cases "outcomes (Result data) evs") auto
qed

lemma submit_stuck:
  "worker_stuck st \<Longrightarrow> submit send m ks data st = (None, st)"
  by (simp add: submit_def)

lemma submit_running:
  assumes "\<not> worker_stuck st" and "cycle send m data ks 1 (world st) = (evs, w', fin)"
  shows "submit send m ks data st =
           (case outcomes (Result data) evs of [] \<Rightarrow> None | outcome # rest \<Rightarrow> Some outcome,
            st\<lparr>world := w', worker_stuck := \<not> fin, trace := trace st @ evs\<rparr>)"
  using assms by (simp add: submit_def split: list.splits)

lemma clientHandler_stuck:
  assumes "Method r = ''POST''" and "ParseForm r = None" and "worker_stuck st"
  shows "clientHandler send s ks r st = (None, st\<lparr>chans := Suc (chans st)\<rparr>)"
  using assms by (simp add: clientHandler_def submit_stuck)

lemma clientHandler_running:
  assumes "Method r = ''POST''" and "ParseForm r = None" and "\<not> worker_stuck st"
    and "cycle send (EmailConfig (config s)) (make_request r (chans st)) ks 1 (world st) =
           (evs, w', fin)"
  shows "clientHandler send s ks r st =
           (let st' = st\<lparr>chans := Suc (chans st), world := w', worker_stuck := \<not> fin,
                         trace := trace st @ evs\<rparr>
            in case outcomes (chans st) evs of
                 [] \<Rightarrow> (None, st')
               | outcome # rest \<Rightarrow>
                   (case Error outcome of
                      Some err \<Rightarrow>
                        (Some (http_Error ''Internal Error'' StatusInternalServerError),
                         st'\<lparr>errlog := errlog st' @ [log_line (make_request r (chans st)) err]\<rparr>)
                    | None \<Rightarrow> (Some \<lparr>Status = StatusOK, Body = ''Success!''\<rparr>, st')))"
proof -
  have ch: "Result (make_request r (chans st)) = chans st"
    by (simp add: make_request_def)
  have "submit send (EmailConfig (config s)) ks (make_request r (chans st))
      (st\<lparr>chans := Suc (chans st)\<rparr>) =
      (case outcomes (chans st) evs of [] \<Rightarrow> None | outcome # rest \<Rightarrow> Some outcome,
       st\<lparr>chans := Suc (chans st), world := w', worker_stuck := \<not> fin,
          trace := trace st @ evs\<rparr>)"
    using submit_running [of "st\<lparr>chans := Suc (chans st)\<rparr>" send "EmailConfig (config s)"
        "make_request r (chans st)" ks evs w' fin] assms(3,4) ch
    by simp
  with assms(1,2) show ?thesis
    by (simp add: clientHandler_def Let_def split: list.splits)
qed

text \<open>
  The handler and the worker agree when the \<open>range\<close> yields exactly one recipient: a POST
  whose form parses is then answered, and the worker is back at the head of its loop.
\<close>

lemma one_recipient_answered:
  assumes "Method r = ''POST''" and "ParseForm r = None" and "\<not> worker_stuck st"
    and "length (range_values (Recipients (EmailConfig (config s))) ks) = 1"
  shows "fst (clientHandler send s ks r st) \<noteq> None \<and>
         \<not> worker_stuck (snd (clientHandler send s ks r st))"
proof -
  let ?m = "EmailConfig (config s)"
  let ?data = "make_request r (chans st)"
  obtain evs w' fin where run: "cycle send ?m ?data ks 1 (world st) = (evs, w', fin)"
    by (cases "cycle send ?m ?data ks 1 (world st)") auto
  have ch: "Result ?data = chans st"
    by (simp add: make_request_def)
  have "returns (cycle send ?m ?data ks 1 (world st)) \<and>
      length (outcomes (Result ?data) (events (cycle send ?m ?data ks 1 (world st)))) = 1"
  proof (cases "template ?m ?data")
    case (Inl err)
    then show ?thesis
      by (simp add: cycle_def dispatch_def returns_def events_def)
  next
    case (Inr body)
    with assms(4) show ?thesis
      by (simp add: cycle_def dispatch_def deliver_returns deliver_outcomes_length)
  qed
  with run ch have fin: "fin" and one: "length (outcomes (chans st) evs) = 1"
    by (simp_all add: returns_def events_def)
  from one obtain outcome where "outcomes (chans st) evs = [outcome]"
    by (cases "outcomes (chans st) evs") auto
  with fin show ?thesis
    by (cases "Error outcome")
      (simp_all add: clientHandler_running [OF assms(1,2,3) run])
qed

text \<open>
  C6. On a POST whose form parses, the handler takes at most one outcome from the reply
  channel of its request. While none has come it has no response. The one it takes
  decides the response: status 500 with the fixed text \<open>Internal Error\<close>, the same for
  every error, when the outcome carries an error, and status 200 with \<open>Success!\<close> when it
  carries none.
\<close>

theorem C6_gateway_reply:
  assumes "Method r = ''POST''" and "ParseForm r = None"
  shows "let (resp, st') = clientHandler send s ks r st;
             got = outcomes (chans st) (drop (length (trace st)) (trace st'))
         in length got \<le> 1 \<and>
            (got = [] \<longrightarrow> resp = None) \<and>
            (\<forall>outcome. got = [outcome] \<longrightarrow>
               resp = Some (case Error outcome of
                              Some err \<Rightarrow> \<lparr>Status = 500, Body = ''Internal Error'' @ [newline]\<rparr>
                            | None \<Rightarrow> \<lparr>Status = 200, Body = ''Success!''\<rparr>))"
proof (cases "worker_stuck st")
  case True
  with assms show ?thesis
    by (simp add: clientHandler_stuck)
next
  case False
  obtain evs w' fin where run:
    "cycle send (EmailConfig (config s)) (make_request r (chans st)) ks 1 (world st) =
       (evs, w', fin)"
    by (cases "cycle send (EmailConfig (config s)) (make_request r (chans st)) ks 1 (world st)")
      auto
  have "Result (make_request r (chans st)) = chans st"
    by (simp add: make_request_def)
  with cycle_one_outcome [OF run]
  consider "outcomes (chans st) evs = []"
    | outcome where "outcomes (chans st) evs = [outcome]"
    by auto
  then show ?thesis
  proof cases
    case 1
    then show ?thesis
      by (simp add: clientHandler_running [OF assms False run])
  next
    case 2
    then show ?thesis
      by (cases "Error outcome")
        (simp_all add: clientHandler_running [OF assms False run] http_Error_def
          StatusInternalServerError_def StatusOK_def)
  qed
qed

text \<open>
  C6 on a POST to a server whose template does not render: one outcome, and the response
  says \<open>Internal Error\<close> and nothing of the cause.
\<close>

theorem C6_gateway_reply_witness:
  "Method demo_post = ''POST'' \<and> ParseForm demo_post = None \<and>
   outcomes 0 (trace (snd (clientHandler accept_all (demo_server two_recipients broken)
     [''a'', ''b''] demo_post (init 0)))) =
     [\<lparr>Error = Some ''template: Body: cannot evaluate field Phone''\<rparr>] \<and>
   fst (clientHandler accept_all (demo_server two_recipients broken) [''a'', ''b''] demo_post
     (init 0)) = Some \<lparr>Status = 500, Body = ''Internal Error'' @ [newline]\<rparr>"
proof -
  have post: "Method demo_post = ''POST''" and parsed: "ParseForm demo_post = None"
    by (simp_all add: demo_post_def)
  have got: "outcomes 0 (trace (snd (clientHandler accept_all
      (demo_server two_recipients broken) [''a'', ''b''] demo_post (init 0)))) =
      [\<lparr>Error = Some ''template: Body: cannot evaluate field Phone''\<rparr>]"
    by (simp add: clientHandler_def submit_def cycle_def dispatch_def demo_post_def
        demo_server_def demo_mail_def broken_def init_def make_request_def)
  show ?thesis
    using post parsed got
      C6_gateway_reply [OF post parsed, of accept_all "demo_server two_recipients broken"
        "[''a'', ''b'']" "init 0"]
    by (simp add: Let_def split_def init_def)
qed

section \<open>Requests that are not POST\<close>

text \<open>
  C10. A request whose method is not \<open>POST\<close> is answered with status 501 and the text
  \<open>Invalid request\<close>; nothing is sent to the worker, and the state of the process,
  the worker's included, is what it was.
\<close>

theorem C10_not_post:
  assumes "Method r \<noteq> ''POST''"
  shows "clientHandler send s ks r st =
           (Some \<lparr>Status = 501, Body = ''Invalid request'' @ [newline]\<rparr>, st)"
  using assms by (simp add: clientHandler_def http_Error_def StatusNotImplemented_def)

text \<open>C10 on a GET.\<close>

theorem C10_not_post_witness:
  "Method demo_get \<noteq> ''POST'' \<and>
   clientHandler accept_all (demo_server two_recipients greeting) [''a'', ''b''] demo_get
     (init 0) = (Some \<lparr>Status = 501, Body = ''Invalid request'' @ [newline]\<rparr>, init 0)"
proof -
  have "Method demo_get \<noteq> ''POST''"
    by (simp add: demo_get_def)
  then show ?thesis
    using C10_not_post [of demo_get accept_all "demo_server two_recipients greeting"
        "[''a'', ''b'']" "init 0"]
    by simp
qed

section \<open>Missing form fields\<close>

text \<open>
  C8. In the request built from a POST, each of the five caller-supplied fields whose
  form key is missing is the empty string. The handler does not look at the fields: a
  POST whose form parses is never answered with \<open>Invalid Form\<close>, and with a worker at
  the head of its loop the request built goes to the worker, which runs its pass on it.
\<close>

theorem C8_missing_fields_empty:
  assumes "Method r = ''POST''" and "ParseForm r = None"
  shows "(Form r ''firstName'' = None \<longrightarrow> FirstName (make_request r c) = []) \<and>
         (Form r ''lastName'' = None \<longrightarrow> LastName (make_request r c) = []) \<and>
         (Form r ''company'' = None \<longrightarrow> CompanyName (make_request r c) = []) \<and>
         (Form r ''email'' = None \<longrightarrow> EmailAddress (make_request r c) = []) \<and>
         (Form r ''description'' = None \<longrightarrow> Description (make_request r c) = []) \<and>
         fst (clientHandler send s ks r st) \<noteq> Some (http_Error ''Invalid Form'' StatusBadRequest) \<and>
         (\<not> worker_stuck st \<longrightarrow>
            trace (snd (clientHandler send s ks r st)) =
            trace st @ events (cycle send (EmailConfig (config s)) (make_request r (chans st))
                                 ks 1 (world st)))"
proof -
  have fields: "(Form r ''firstName'' = None \<longrightarrow> FirstName (make_request r c) = []) \<and>
         (Form r ''lastName'' = None \<longrightarrow> LastName (make_request r c) = []) \<and>
         (Form r ''company'' = None \<longrightarrow> CompanyName (make_request r c) = []) \<and>
         (Form r ''email'' = None \<longrightarrow> EmailAddress (make_request r c) = []) \<and>
         (Form r ''description'' = None \<longrightarrow> Description (make_request r c) = [])"
    by (simp add: make_request_def FormValue_def)
  obtain evs w' fin where run:
    "cycle send (EmailConfig (config s)) (make_request r (chans st)) ks 1 (world st) =
       (evs, w', fin)"
    by (cases "cycle send (EmailConfig (config s)) (make_request r (chans st)) ks 1 (world st)")
      auto
  have answer: "fst (clientHandler send s ks r st) \<noteq>
      Some (http_Error ''Invalid Form'' StatusBadRequest)"
  proof (cases "worker_stuck st")
    case True
    then show ?thesis
      by (simp add: clientHandler_stuck [OF assms])
  next
    case False
    then show ?thesis
      by (simp add: clientHandler_running [OF assms False run] Let_def http_Error_def
          StatusBadRequest_def StatusInternalServerError_def StatusOK_def
          split: list.splits option.splits)
  qed
  have sent: "\<not> worker_stuck st \<longrightarrow> trace (snd (clientHandler send s ks r st)) =
      trace st @ events (cycle send (EmailConfig (config s)) (make_request r (chans st))
                           ks 1 (world st))"
  proof
    assume running: "\<not> worker_stuck st"
    have ev: "events (cycle send (EmailConfig (config s)) (make_request r (chans st))
        ks 1 (world st)) = evs"
      using run by (simp add: events_def)
    show "trace (snd (clientHandler send s ks r st)) =
      trace st @ events (cycle send (EmailConfig (config s)) (make_request r (chans st))
                           ks 1 (world st))"
      unfolding ev
      by (simp add: clientHandler_running [OF assms running run] Let_def
          split: list.splits option.splits)
  qed
  from fields answer sent show ?thesis
    by simp
qed

text \<open>
  C8 on a POST that gives the first name and the email address only: the other three
  fields are empty, and the request is served.
\<close>

theorem C8_missing_fields_empty_witness:
  "Method demo_post = ''POST'' \<and> ParseForm demo_post = None \<and>
   Form demo_post ''lastName'' = None \<and> Form demo_post ''company'' = None \<and>
   Form demo_post ''description'' = None \<and> \<not> worker_stuck (init (0::nat)) \<and>
   LastName (make_request demo_post 0) = [] \<and>
   CompanyName (make_request demo_post 0) = [] \<and>
   Description (make_request demo_post 0) = [] \<and>
   fst (clientHandler accept_all (demo_server two_recipients greeting) [''a'', ''b''] demo_post
     (init 0)) \<noteq> Some (http_Error ''Invalid Form'' StatusBadRequest) \<and>
   trace (snd (clientHandler accept_all (demo_server two_recipients greeting) [''a'', ''b'']
     demo_post (init 0))) =
   events (cycle accept_all (demo_mail two_recipients greeting) (make_request demo_post 0)
     [''a'', ''b''] 1 0)"
proof -
  have post: "Method demo_post = ''POST''" and parsed: "ParseForm demo_post = None"
    by (simp_all add: demo_post_def)
  have missing: "Form demo_post ''lastName'' = None \<and> Form demo_post ''company'' = None \<and>
      Form demo_post ''description'' = None"
    by (simp add: demo_post_def)
  show ?thesis
    using post parsed missing
      C8_missing_fields_empty [OF post parsed, of 0 accept_all
        "demo_server two_recipients greeting" "[''a'', ''b'']" "init 0"]
    by (simp add: init_def demo_server_def)
qed

section \<open>Callers that wait forever\<close>

text \<open>
  C2 fails on the code. With two recipients the first POST is answered, and the worker
  then stays in its second send on the first request's reply channel, which the handler
  reads once: the second POST is never answered. With no recipient at all the worker
  publishes nothing, and the only POST is never answered.
\<close>

theorem C2_caller_waits_forever:
  "fst (serve accept_all (demo_server two_recipients greeting)
     [(demo_post, [''a'', ''b'']), (demo_post, [''a'', ''b''])] (init 0)) =
     [Some \<lparr>Status = 200, Body = ''Success!''\<rparr>, None] \<and>
   worker_stuck (snd (serve accept_all (demo_server two_recipients greeting)
     [(demo_post, [''a'', ''b'']), (demo_post, [''a'', ''b''])] (init 0))) \<and>
   fst (serve accept_all (demo_server nobody greeting) [(demo_post, [])] (init 0)) = [None]"
  by (simp add: clientHandler_def submit_def cycle_def dispatch_def demo_post_def
      demo_server_def demo_mail_def greeting_def init_def make_request_def range_values_def
      two_recipients_def nobody_def accept_all_def StatusOK_def)

section \<open>Recipients that are never attempted\<close>

text \<open>
  C4 fails on the code. With three recipients and one POST, the handler takes the first
  outcome and answers; the worker sends the second message and then stays in the send of
  its outcome. The third recipient is never attempted, and of three outcomes one is
  published.
\<close>

theorem C4_third_recipient_never_attempted:
  "range_order (Recipients (demo_mail three_recipients greeting)) [''a'', ''b'', ''e''] \<and>
   fst (serve accept_all (demo_server three_recipients greeting)
     [(demo_post, [''a'', ''b'', ''e''])] (init 0)) =
     [Some \<lparr>Status = 200, Body = ''Success!''\<rparr>] \<and>
   map (\<lambda>(args, err). sm_to args)
     (calls (trace (snd (serve accept_all (demo_server three_recipients greeting)
        [(demo_post, [''a'', ''b'', ''e''])] (init 0))))) =
     [[''ana@example.org''], [''bob@example.org'']] \<and>
   outcomes 0 (trace (snd (serve accept_all (demo_server three_recipients greeting)
     [(demo_post, [''a'', ''b'', ''e''])] (init 0)))) = [\<lparr>Error = None\<rparr>] \<and>
   worker_stuck (snd (serve accept_all (demo_server three_recipients greeting)
     [(demo_post, [''a'', ''b'', ''e''])] (init 0)))"
proof -
  have "range_order (Recipients (demo_mail three_recipients greeting)) [''a'', ''b'', ''e'']"
    by (auto simp: range_order_def demo_mail_def three_recipients_def)
  then show ?thesis
    by (simp add: clientHandler_def submit_def cycle_def dispatch_def demo_post_def
        demo_server_def demo_mail_def greeting_def init_def make_request_def range_values_def
        three_recipients_def accept_all_def StatusOK_def ana_def bob_def)
qed

section \<open>Rendering a greeting\<close>

text \<open>
  C9. The template text \<open>Hello {{.FirstName}}\<close> compiles, at the loading of the
  configuration, to the literal \<open>Hello \<close> followed by the field \<open>FirstName\<close>, and the
  compiled template renders a request whose first name is \<open>Ana\<close> to exactly
  \<open>Hello Ana\<close>.
\<close>

theorem C9_hello_ana:
  "load_template (m\<lparr>TemplateText := ''Hello {{.FirstName}}''\<rparr>) =
     Inr (m\<lparr>TemplateText := ''Hello {{.FirstName}}'',
             template := Execute [TextNode ''Hello '', FieldNode ''FirstName'']\<rparr>) \<and>
   Execute [TextNode ''Hello '', FieldNode ''FirstName''] (cmd\<lparr>FirstName := ''Ana''\<rparr>) =
     Inr ''Hello Ana''"
  by (simp add: load_template_def Parse_def action_def trim_def is_space_def is_ident_char_def
      lookup_field_def)

end
